theory Spec2Isabelle
  imports Main
begin

section \<open>CORS header middleware of shallot-http-cors (src/aws/index.ts)\<close>

subsection \<open>JavaScript values\<close>

text \<open>
  The values that can sit in a response header slot or be handed to
  \<^verbatim>\<open>setHeaderIfNotExists\<close>: \<^verbatim>\<open>undefined\<close>, \<^verbatim>\<open>null\<close>, a string, a boolean or a
  number. The code observes a number only through \<^verbatim>\<open>== null\<close> and \<^verbatim>\<open>String(_)\<close>, so a
  number is carried as the text that \<^verbatim>\<open>String\<close> yields for it.
\<close>

datatype jsval =
    JUndefined
  | JNull
  | JString string
  | JBoolean bool
  | JNumber string

text \<open>\<^verbatim>\<open>v == null\<close>: true for \<^verbatim>\<open>null\<close> and \<^verbatim>\<open>undefined\<close> only.\<close>

fun eqNull :: "jsval \<Rightarrow> bool" where
  "eqNull JUndefined = True"
| "eqNull JNull = True"
| "eqNull (JString s) = False"
| "eqNull (JBoolean b) = False"
| "eqNull (JNumber n) = False"

text \<open>\<^verbatim>\<open>String(v)\<close>.\<close>

fun String_js :: "jsval \<Rightarrow> string" where
  "String_js JUndefined = ''undefined''"
| "String_js JNull = ''null''"
| "String_js (JString s) = s"
| "String_js (JBoolean b) = (if b then ''true'' else ''false'')"
| "String_js (JNumber n) = n"

text \<open>
  An object with string keys is a map; reading a key that the object does not have
  gives \<^verbatim>\<open>undefined\<close>.
\<close>

definition getProp :: "(string \<rightharpoonup> jsval) \<Rightarrow> string \<Rightarrow> jsval" where
  "getProp obj k = (case obj k of None \<Rightarrow> JUndefined | Some v \<Rightarrow> v)"

subsection \<open>Options, event, response, request\<close>

text \<open>
  A field of the options object declared with \<^verbatim>\<open>?\<close>: the key can be missing from the
  object, be there with the value \<^verbatim>\<open>undefined\<close>, or carry a value. Object spread
  tells the first two apart, a property read does not.
\<close>

datatype 'a optfield = Omitted | Undef | Given 'a

fun propValue :: "'a optfield \<Rightarrow> 'a option" where
  "propValue Omitted = None"
| "propValue Undef = None"
| "propValue (Given v) = Some v"

record TShallotHTTPCorsOptions =
  allowHeaders :: "string optfield"
  allowedOrigins :: "string list optfield"
  credentials :: "bool optfield"
  maxAge :: "string optfield"
  cacheControl :: "string optfield"

text \<open>
  The part of \<^verbatim>\<open>APIGatewayEvent\<close> that the middleware reads. \<open>httpMethod\<close> is \<open>None\<close>
  when the property is \<^verbatim>\<open>null\<close> or \<^verbatim>\<open>undefined\<close>. The event's \<^verbatim>\<open>headers\<close> object
  (named \<open>eventHeaders\<close> here, since the response has a field \<open>headers\<close> too) maps a
  name to a string; \<open>None\<close> is what a read gives for a name without a string value.
\<close>

record APIGatewayEvent =
  httpMethod :: "string option"
  eventHeaders :: "string \<rightharpoonup> string"

text \<open>
  \<^verbatim>\<open>APIGatewayProxyResult\<close>. Every field is optional in the model because the middleware
  itself creates the object as \<^verbatim>\<open>{}\<close> when the handler produced none. The status code is
  a number, carried as its text like every number here.
\<close>

record APIGatewayProxyResult =
  statusCode :: "string option"
  headers :: "(string \<rightharpoonup> jsval) option"
  multiValueHeaders :: "(string \<rightharpoonup> jsval list) option"
  body :: "string option"
  isBase64Encoded :: "bool option"

record request =
  event :: APIGatewayEvent
  response :: "APIGatewayProxyResult option"

text \<open>The object literal \<^verbatim>\<open>{}\<close> as a response.\<close>

definition emptyResult :: APIGatewayProxyResult where
  "emptyResult =
     \<lparr>statusCode = None, headers = None, multiValueHeaders = None, body = None,
      isBase64Encoded = None\<rparr>"

subsection \<open>The functions of the source\<close>

text \<open>
  \<^verbatim>\<open>setHeaderIfNotExists\<close> (lines 22-30). The in-place assignment to
  \<^verbatim>\<open>response.headers[header]\<close> is returned as the updated response.
\<close>

definition setHeaderIfNotExists ::
  "APIGatewayProxyResult \<Rightarrow> string \<Rightarrow> jsval \<Rightarrow> APIGatewayProxyResult" where
  "setHeaderIfNotExists res header v =
     (case headers res of
        None \<Rightarrow> res
      | Some hs \<Rightarrow>
          if \<not> eqNull v \<and> eqNull (getProp hs header)
          then res\<lparr>headers := Some (hs(header \<mapsto> JString (String_js v)))\<rparr>
          else res)"

text \<open>
  \<^verbatim>\<open>parseAllowedOrigin\<close> (lines 32-42). \<^verbatim>\<open>allowedOrigins[0]\<close> on an empty array is
  \<^verbatim>\<open>undefined\<close>, which is the result \<open>None\<close>.
\<close>

definition inboundOrigin :: "APIGatewayEvent \<Rightarrow> string option" where
  "inboundOrigin ev =
     (case eventHeaders ev ''Origin'' of
        Some v \<Rightarrow> Some v
      | None \<Rightarrow> eventHeaders ev ''origin'')"

definition parseAllowedOrigin :: "APIGatewayEvent \<Rightarrow> string list \<Rightarrow> string option" where
  "parseAllowedOrigin ev origins =
     (case inboundOrigin ev of
        Some inb \<Rightarrow>
          if inb \<in> set origins then Some inb
          else if ''*'' \<in> set origins then Some ''*''
          else (case origins of [] \<Rightarrow> None | x # _ \<Rightarrow> Some x)
      | None \<Rightarrow>
          if ''*'' \<in> set origins then Some ''*''
          else (case origins of [] \<Rightarrow> None | x # _ \<Rightarrow> Some x))"

text \<open>
  Lines 58-62: \<^verbatim>\<open>config = { allowedOrigins: ['*'], credentials: false, ...config }\<close>.
  The argument is \<open>None\<close> when the middleware was built without options. A key of the
  caller's object wins over the default whenever the object has the key, also with the
  value \<^verbatim>\<open>undefined\<close>.
\<close>

definition spreadDefaults :: "TShallotHTTPCorsOptions option \<Rightarrow> TShallotHTTPCorsOptions" where
  "spreadDefaults config =
     (case config of
        None \<Rightarrow>
          \<lparr>allowHeaders = Omitted, allowedOrigins = Given [''*''],
           credentials = Given False, maxAge = Omitted, cacheControl = Omitted\<rparr>
      | Some c \<Rightarrow>
          c\<lparr>allowedOrigins :=
              (case allowedOrigins c of Omitted \<Rightarrow> Given [''*''] | p \<Rightarrow> p),
            credentials :=
              (case credentials c of Omitted \<Rightarrow> Given False | p \<Rightarrow> p)\<rparr>)"

text \<open>An optional string of the options as the value passed on: \<^verbatim>\<open>undefined\<close> or the string.\<close>

definition optString :: "string optfield \<Rightarrow> jsval" where
  "optString p = (case propValue p of None \<Rightarrow> JUndefined | Some s \<Rightarrow> JString s)"

text \<open>
  The body of the \<^verbatim>\<open>if (request.event.httpMethod != null)\<close> block after the
  response and its header object exist (lines 68-90): five guarded writes, one after the
  other, on the same response.
\<close>

definition corsHeaders ::
  "TShallotHTTPCorsOptions \<Rightarrow> APIGatewayEvent \<Rightarrow> APIGatewayProxyResult \<Rightarrow> APIGatewayProxyResult"
where
  "corsHeaders config ev res0 =
     (let res1 = setHeaderIfNotExists res0 ''Access-Control-Allow-Headers''
                   (optString (allowHeaders config));
          res2 = (if propValue (credentials config) = Some True
                  then setHeaderIfNotExists res1 ''Access-Control-Allow-Credentials''
                         (JBoolean True)
                  else res1);
          res3 = setHeaderIfNotExists res2 ''Access-Control-Max-Age''
                   (optString (maxAge config));
          res4 = (case propValue (allowedOrigins config) of
                    None \<Rightarrow> res3
                  | Some origins \<Rightarrow>
                      if length origins > 0
                      then setHeaderIfNotExists res3 ''Access-Control-Allow-Origin''
                             (case parseAllowedOrigin ev origins of
                                None \<Rightarrow> JUndefined
                              | Some s \<Rightarrow> JString s)
                      else res3)
      in if httpMethod ev = Some ''OPTIONS''
         then setHeaderIfNotExists res4 ''Cache-Control'' (optString (cacheControl config))
         else res4)"

text \<open>
  The \<^verbatim>\<open>finally\<close> hook (lines 57-92). The closure variable \<^verbatim>\<open>config\<close> is assigned on
  every call and the request is mutated in place, so the hook takes the current
  \<^verbatim>\<open>config\<close> and the request and returns both.
\<close>

definition ShallotAWSHttpCors_finally ::
  "TShallotHTTPCorsOptions option \<Rightarrow> request \<Rightarrow> TShallotHTTPCorsOptions option \<times> request"
where
  "ShallotAWSHttpCors_finally config0 req =
     (let config = spreadDefaults config0 in
      case httpMethod (event req) of
        None \<Rightarrow> (Some config, req)
      | Some m \<Rightarrow>
          (let res = (case response req of None \<Rightarrow> emptyResult | Some r \<Rightarrow> r);
               res0 = res\<lparr>headers := Some (case headers res of None \<Rightarrow> Map.empty | Some hs \<Rightarrow> hs)\<rparr>
           in (Some config, req\<lparr>response := Some (corsHeaders config (event req) res0)\<rparr>)))"

subsection \<open>Observations used in the statements\<close>

text \<open>
  What the header object of the request's response binds to a name: \<open>None\<close> when there
  is no response, no header object, or no such key.
\<close>

definition lookupHeader :: "request \<Rightarrow> string \<Rightarrow> jsval option" where
  "lookupHeader req h =
     (case response req of
        None \<Rightarrow> None
      | Some r \<Rightarrow> (case headers r of None \<Rightarrow> None | Some hs \<Rightarrow> hs h))"

text \<open>The value that a read of that header gives (\<^verbatim>\<open>undefined\<close> when nothing is bound).\<close>

definition readHeader :: "request \<Rightarrow> string \<Rightarrow> jsval" where
  "readHeader req h = (case lookupHeader req h of None \<Rightarrow> JUndefined | Some v \<Rightarrow> v)"

text \<open>The five header names that occur in the hook.\<close>

definition corsHeaderNames :: "string set" where
  "corsHeaderNames =
     {''Access-Control-Allow-Headers'', ''Access-Control-Allow-Credentials'',
      ''Access-Control-Max-Age'', ''Access-Control-Allow-Origin'', ''Cache-Control''}"

subsection \<open>A pointwise view of the writes, for the proofs\<close>

text \<open>
  These three definitions are not in the source. They describe the effect of the five
  writes name by name, and are shown below to agree with \<open>setHeaderIfNotExists\<close> and
  \<open>corsHeaders\<close>.

  The guarded write of \<open>setHeaderIfNotExists\<close>, seen on the header object alone.
\<close>

definition writeIfNull :: "(string \<rightharpoonup> jsval) \<Rightarrow> string \<Rightarrow> jsval \<Rightarrow> (string \<rightharpoonup> jsval)" where
  "writeIfNull hs h v =
     (if \<not> eqNull v \<and> eqNull (getProp hs h) then hs(h \<mapsto> JString (String_js v)) else hs)"

text \<open>
  The value that the hook offers for a header name, given the merged options and the
  event: \<^verbatim>\<open>undefined\<close> stands for "no write attempted or nothing to write".
\<close>

definition offered :: "TShallotHTTPCorsOptions \<Rightarrow> APIGatewayEvent \<Rightarrow> string \<Rightarrow> jsval" where
  "offered config ev h =
     (if h = ''Access-Control-Allow-Headers'' then optString (allowHeaders config)
      else if h = ''Access-Control-Allow-Credentials''
        then (if propValue (credentials config) = Some True then JBoolean True else JUndefined)
      else if h = ''Access-Control-Max-Age'' then optString (maxAge config)
      else if h = ''Access-Control-Allow-Origin''
        then (case propValue (allowedOrigins config) of
                None \<Rightarrow> JUndefined
              | Some origins \<Rightarrow>
                  if length origins > 0
                  then (case parseAllowedOrigin ev origins of
                          None \<Rightarrow> JUndefined
                        | Some s \<Rightarrow> JString s)
                  else JUndefined)
      else if h = ''Cache-Control''
        then (if httpMethod ev = Some ''OPTIONS'' then optString (cacheControl config)
              else JUndefined)
      else JUndefined)"

text \<open>The header object after the five writes: each name takes the offered value if it
  has one and the name was bound to nothing but \<^verbatim>\<open>null\<close> or \<^verbatim>\<open>undefined\<close>.\<close>

definition merged :: "TShallotHTTPCorsOptions \<Rightarrow> APIGatewayEvent \<Rightarrow> (string \<rightharpoonup> jsval) \<Rightarrow> (string \<rightharpoonup> jsval)" where
  "merged config ev hs =
     (\<lambda>k. if \<not> eqNull (offered config ev k) \<and> eqNull (getProp hs k)
          then Some (JString (String_js (offered config ev k)))
          else hs k)"

subsection \<open>The hook on an event as it arrives\<close>












subsection \<open>Inputs of the repository's tests\<close>

text \<open>
  The events and handler results that the test suite feeds to the middleware; the
  concrete instances below are evaluated on them.
\<close>

definition mockEventGet :: APIGatewayEvent where
  "mockEventGet =
     \<lparr>httpMethod = Some ''GET'', eventHeaders = [''Origin'' \<mapsto> ''https://www.example.com'']\<rparr>"

definition mockEventOptions :: APIGatewayEvent where
  "mockEventOptions =
     \<lparr>httpMethod = Some ''OPTIONS'',
      eventHeaders = [''Origin'' \<mapsto> ''https://www.example.com'']\<rparr>"

definition mockEventLowercase :: APIGatewayEvent where
  "mockEventLowercase =
     \<lparr>httpMethod = Some ''GET'',
      eventHeaders = [''origin'' \<mapsto> ''https://www.other-website.com'']\<rparr>"

definition mockEventNoMethod :: APIGatewayEvent where
  "mockEventNoMethod =
     \<lparr>httpMethod = None, eventHeaders = [''Origin'' \<mapsto> ''https://www.example.com'']\<rparr>"

definition handlerResult :: APIGatewayProxyResult where
  "handlerResult =
     \<lparr>statusCode = Some ''200'', headers = None, multiValueHeaders = None, body = Some '''',
      isBase64Encoded = None\<rparr>"

definition handlerWithResHeaders :: APIGatewayProxyResult where
  "handlerWithResHeaders =
     \<lparr>statusCode = Some ''200'', headers = Some [''X-Test'' \<mapsto> JString ''''],
      multiValueHeaders = None, body = Some '''', isBase64Encoded = None\<rparr>"

definition noOptions :: TShallotHTTPCorsOptions where
  "noOptions =
     \<lparr>allowHeaders = Omitted, allowedOrigins = Omitted, credentials = Omitted,
      maxAge = Omitted, cacheControl = Omitted\<rparr>"


section \<open>Auxiliary facts\<close>

subsection \<open>The guarded write\<close>

lemma setHeaderIfNotExists_eq:
  "setHeaderIfNotExists res h v =
     (case headers res of None \<Rightarrow> res | Some hs \<Rightarrow> res\<lparr>headers := Some (writeIfNull hs h v)\<rparr>)"
  by (simp add: setHeaderIfNotExists_def writeIfNull_def split: option.splits)

lemma setHeaderIfNotExists_Some:
  "headers res = Some hs \<Longrightarrow>
   setHeaderIfNotExists res h v = res\<lparr>headers := Some (writeIfNull hs h v)\<rparr>"
  by (simp add: setHeaderIfNotExists_eq)

lemma writeIfNull_other: "k \<noteq> h \<Longrightarrow> writeIfNull hs h v k = hs k"
  by (simp add: writeIfNull_def)

lemma writeIfNull_at:
  "writeIfNull hs h v h =
     (if \<not> eqNull v \<and> eqNull (getProp hs h) then Some (JString (String_js v)) else hs h)"
  by (simp add: writeIfNull_def)

lemma writeIfNull_undefined [simp]: "writeIfNull hs h JUndefined = hs"
  by (simp add: writeIfNull_def)

lemma getProp_writeIfNull_other:
  "k \<noteq> h \<Longrightarrow> getProp (writeIfNull hs h v) k = getProp hs k"
  by (simp add: getProp_def writeIfNull_other)

lemma merged_at:
  "merged config ev hs k = writeIfNull hs k (offered config ev k) k"
  by (simp add: merged_def writeIfNull_at)

lemma offered_outside:
  "k \<notin> corsHeaderNames \<Longrightarrow> offered config ev k = JUndefined"
  by (simp add: offered_def corsHeaderNames_def)

subsection \<open>The five writes together\<close>

lemma chain5:
  assumes "distinct [a, b, c, d, e]"
  shows "writeIfNull (writeIfNull (writeIfNull (writeIfNull (writeIfNull hs a va) b vb) c vc) d vd) e ve k =
     (if k = a then writeIfNull hs a va a
      else if k = b then writeIfNull hs b vb b
      else if k = c then writeIfNull hs c vc c
      else if k = d then writeIfNull hs d vd d
      else if k = e then writeIfNull hs e ve e
      else hs k)"
  using assms
  by (simp add: writeIfNull_other writeIfNull_at getProp_writeIfNull_other)

lemma names_distinct:
  "distinct [''Access-Control-Allow-Headers'', ''Access-Control-Allow-Credentials'',
     ''Access-Control-Max-Age'', ''Access-Control-Allow-Origin'', ''Cache-Control'']"
  by simp

lemma offered_else:
  "k \<noteq> ''Access-Control-Allow-Headers'' \<Longrightarrow> k \<noteq> ''Access-Control-Allow-Credentials'' \<Longrightarrow>
   k \<noteq> ''Access-Control-Max-Age'' \<Longrightarrow> k \<noteq> ''Access-Control-Allow-Origin'' \<Longrightarrow>
   k \<noteq> ''Cache-Control'' \<Longrightarrow> offered config ev k = JUndefined"
  by (simp add: offered_def)


lemma corsHeaders_steps:
  assumes "headers res0 = Some hs"
  shows "corsHeaders config ev res0 =
     res0\<lparr>headers := Some
       (writeIfNull (writeIfNull (writeIfNull (writeIfNull (writeIfNull hs
          ''Access-Control-Allow-Headers'' (offered config ev ''Access-Control-Allow-Headers''))
          ''Access-Control-Allow-Credentials'' (offered config ev ''Access-Control-Allow-Credentials''))
          ''Access-Control-Max-Age'' (offered config ev ''Access-Control-Max-Age''))
          ''Access-Control-Allow-Origin'' (offered config ev ''Access-Control-Allow-Origin''))
          ''Cache-Control'' (offered config ev ''Cache-Control''))\<rparr>"
  using assms
  by (simp add: corsHeaders_def Let_def setHeaderIfNotExists_Some offered_def
      split: option.splits)

lemma merged_cases:
  "merged config ev hs k =
     (if k = ''Access-Control-Allow-Headers''
        then writeIfNull hs ''Access-Control-Allow-Headers'' (offered config ev ''Access-Control-Allow-Headers'') ''Access-Control-Allow-Headers''
      else if k = ''Access-Control-Allow-Credentials''
        then writeIfNull hs ''Access-Control-Allow-Credentials'' (offered config ev ''Access-Control-Allow-Credentials'') ''Access-Control-Allow-Credentials''
      else if k = ''Access-Control-Max-Age''
        then writeIfNull hs ''Access-Control-Max-Age'' (offered config ev ''Access-Control-Max-Age'') ''Access-Control-Max-Age''
      else if k = ''Access-Control-Allow-Origin''
        then writeIfNull hs ''Access-Control-Allow-Origin'' (offered config ev ''Access-Control-Allow-Origin'') ''Access-Control-Allow-Origin''
      else if k = ''Cache-Control''
        then writeIfNull hs ''Cache-Control'' (offered config ev ''Cache-Control'') ''Cache-Control''
      else hs k)"
  using offered_else [of k config ev]
  by (auto simp add: merged_at)

lemma corsHeaders_merged:
  assumes "headers res0 = Some hs"
  shows "corsHeaders config ev res0 = res0\<lparr>headers := Some (merged config ev hs)\<rparr>"
proof -
  have "writeIfNull (writeIfNull (writeIfNull (writeIfNull (writeIfNull hs
          ''Access-Control-Allow-Headers'' (offered config ev ''Access-Control-Allow-Headers''))
          ''Access-Control-Allow-Credentials'' (offered config ev ''Access-Control-Allow-Credentials''))
          ''Access-Control-Max-Age'' (offered config ev ''Access-Control-Max-Age''))
          ''Access-Control-Allow-Origin'' (offered config ev ''Access-Control-Allow-Origin''))
          ''Cache-Control'' (offered config ev ''Cache-Control'') k = merged config ev hs k" for k
    unfolding chain5 [OF names_distinct] merged_cases ..
  then show ?thesis
    unfolding corsHeaders_steps [OF assms] by (simp add: fun_eq_iff)
qed


subsection \<open>The hook\<close>

lemma finally_no_method:
  "httpMethod (event req) = None \<Longrightarrow>
   ShallotAWSHttpCors_finally config req = (Some (spreadDefaults config), req)"
  by (simp add: ShallotAWSHttpCors_finally_def)

lemma finally_method:
  assumes "httpMethod (event req) = Some m"
  shows "ShallotAWSHttpCors_finally config req =
     (Some (spreadDefaults config),
      req\<lparr>response := Some ((case response req of None \<Rightarrow> emptyResult | Some r \<Rightarrow> r)
        \<lparr>headers := Some (merged (spreadDefaults config) (event req) (lookupHeader req))\<rparr>)\<rparr>)"
proof -
  let ?res = "case response req of None \<Rightarrow> emptyResult | Some r \<Rightarrow> r"
  let ?hs = "case headers ?res of None \<Rightarrow> Map.empty | Some hs \<Rightarrow> hs"
  have look: "lookupHeader req = ?hs"
    by (auto simp add: lookupHeader_def emptyResult_def fun_eq_iff split: option.splits)
  have "headers (?res\<lparr>headers := Some ?hs\<rparr>) = Some ?hs" by simp
  then have "corsHeaders (spreadDefaults config) (event req) (?res\<lparr>headers := Some ?hs\<rparr>) =
      ?res\<lparr>headers := Some ?hs\<rparr>\<lparr>headers := Some (merged (spreadDefaults config) (event req) ?hs)\<rparr>"
    by (rule corsHeaders_merged)
  with assms look show ?thesis
    by (simp add: ShallotAWSHttpCors_finally_def Let_def)
qed

lemma lookupHeader_finally:
  assumes "httpMethod (event req) = Some m"
  shows "lookupHeader (snd (ShallotAWSHttpCors_finally config req)) h =
     merged (spreadDefaults config) (event req) (lookupHeader req) h"
  by (simp add: finally_method [OF assms] lookupHeader_def)

lemma getProp_lookupHeader: "getProp (lookupHeader req) h = readHeader req h"
  by (simp add: getProp_def readHeader_def)

lemma spreadDefaults_idem: "spreadDefaults (Some (spreadDefaults config)) = spreadDefaults config"
  by (cases config) (auto simp add: spreadDefaults_def split: optfield.splits)

lemma merged_idem: "merged config ev (merged config ev hs) = merged config ev hs"
  by (auto simp add: merged_def fun_eq_iff getProp_def)

subsection \<open>The hook on an event as it arrives\<close>












section \<open>The claims\<close>

subsection \<open>Origin resolution\<close>

text \<open>
  Claim C1. For every event and every non-empty list of allowed origins,
  \<open>parseAllowedOrigin\<close> returns the inbound origin when it is a member of the list;
  otherwise \<^verbatim>\<open>"*"\<close> when the list contains \<^verbatim>\<open>"*"\<close>; otherwise the first element of the
  list. The inbound origin is read under the key \<^verbatim>\<open>"Origin"\<close> and under \<^verbatim>\<open>"origin"\<close> only
  when \<^verbatim>\<open>"Origin"\<close> gives nothing, and an event that carries the origin only under
  \<^verbatim>\<open>"origin"\<close> resolves like the same event with the value moved to the key \<^verbatim>\<open>"Origin"\<close>.
\<close>

theorem parseAllowedOrigin_resolution:
  assumes "origins \<noteq> []"
  shows "(\<forall>inb. inboundOrigin ev = Some inb \<and> inb \<in> set origins \<longrightarrow>
            parseAllowedOrigin ev origins = Some inb)
       \<and> ((\<forall>inb. inboundOrigin ev = Some inb \<longrightarrow> inb \<notin> set origins) \<and> ''*'' \<in> set origins \<longrightarrow>
            parseAllowedOrigin ev origins = Some ''*'')
       \<and> ((\<forall>inb. inboundOrigin ev = Some inb \<longrightarrow> inb \<notin> set origins) \<and> ''*'' \<notin> set origins \<longrightarrow>
            parseAllowedOrigin ev origins = Some (origins ! 0))
       \<and> inboundOrigin ev =
            (if eventHeaders ev ''Origin'' = None then eventHeaders ev ''origin''
             else eventHeaders ev ''Origin'')
       \<and> (eventHeaders ev ''Origin'' = None \<longrightarrow>
            parseAllowedOrigin
              (ev\<lparr>eventHeaders := (eventHeaders ev)(''Origin'' := eventHeaders ev ''origin'',
                                                  ''origin'' := None)\<rparr>) origins
            = parseAllowedOrigin ev origins)"
proof -
  obtain x xs where o: "origins = x # xs" using assms by (cases origins) auto
  have a: "\<forall>inb. inboundOrigin ev = Some inb \<and> inb \<in> set origins \<longrightarrow>
            parseAllowedOrigin ev origins = Some inb"
    by (simp add: parseAllowedOrigin_def)
  have b: "(\<forall>inb. inboundOrigin ev = Some inb \<longrightarrow> inb \<notin> set origins) \<and> ''*'' \<in> set origins \<longrightarrow>
            parseAllowedOrigin ev origins = Some ''*''"
    by (auto simp add: parseAllowedOrigin_def split: option.splits)
  have c: "(\<forall>inb. inboundOrigin ev = Some inb \<longrightarrow> inb \<notin> set origins) \<and> ''*'' \<notin> set origins \<longrightarrow>
            parseAllowedOrigin ev origins = Some (origins ! 0)"
    using o by (auto simp add: parseAllowedOrigin_def split: option.splits)
  have d: "inboundOrigin ev =
            (if eventHeaders ev ''Origin'' = None then eventHeaders ev ''origin''
             else eventHeaders ev ''Origin'')"
    by (simp add: inboundOrigin_def split: option.splits)
  have "inboundOrigin (ev\<lparr>eventHeaders := (eventHeaders ev)(''Origin'' := eventHeaders ev ''origin'',
                                                  ''origin'' := None)\<rparr>) = inboundOrigin ev"
    if "eventHeaders ev ''Origin'' = None"
    using that by (simp add: inboundOrigin_def split: option.splits)
  then have e: "eventHeaders ev ''Origin'' = None \<longrightarrow>
            parseAllowedOrigin
              (ev\<lparr>eventHeaders := (eventHeaders ev)(''Origin'' := eventHeaders ev ''origin'',
                                                  ''origin'' := None)\<rparr>) origins
            = parseAllowedOrigin ev origins"
    by (simp add: parseAllowedOrigin_def)
  from a b c d e show ?thesis by blast
qed

text \<open>
  The tests "Same origin" (lowercase key, echoed), "Unaccepted origin" (fallback to the
  first entry) and the default list (wildcard).
\<close>

theorem parseAllowedOrigin_resolution_witness:
  "[''https://www.other-website.com''] \<noteq> []
   \<and> inboundOrigin mockEventLowercase = Some ''https://www.other-website.com''
   \<and> parseAllowedOrigin mockEventLowercase [''https://www.other-website.com'']
       = Some ''https://www.other-website.com''
   \<and> inboundOrigin mockEventGet = Some ''https://www.example.com''
   \<and> parseAllowedOrigin mockEventGet [''https://www.other-website.com'']
       = Some ''https://www.other-website.com''
   \<and> parseAllowedOrigin mockEventGet [''*''] = Some ''*''
   \<and> eventHeaders mockEventLowercase ''Origin'' = None
   \<and> parseAllowedOrigin
       (mockEventLowercase\<lparr>eventHeaders :=
          (eventHeaders mockEventLowercase)
            (''Origin'' := eventHeaders mockEventLowercase ''origin'', ''origin'' := None)\<rparr>)
       [''https://www.other-website.com'']
       = Some ''https://www.other-website.com''"
proof -
  have n1: "[''https://www.other-website.com''] \<noteq> []" by simp
  have n2: "[''*''] \<noteq> ([] :: string list)" by simp
  have i1: "inboundOrigin mockEventLowercase = Some ''https://www.other-website.com''"
    by (simp add: inboundOrigin_def mockEventLowercase_def)
  have i2: "inboundOrigin mockEventGet = Some ''https://www.example.com''"
    by (simp add: inboundOrigin_def mockEventGet_def)
  have k: "eventHeaders mockEventLowercase ''Origin'' = None"
    by (simp add: mockEventLowercase_def)
  have "''https://www.other-website.com'' \<in> set [''https://www.other-website.com'']"
    by simp
  with parseAllowedOrigin_resolution [OF n1, of mockEventLowercase] i1
  have r1: "parseAllowedOrigin mockEventLowercase [''https://www.other-website.com'']
       = Some ''https://www.other-website.com''"
    by blast
  from parseAllowedOrigin_resolution [OF n1, of mockEventLowercase] k
  have "parseAllowedOrigin
       (mockEventLowercase\<lparr>eventHeaders :=
          (eventHeaders mockEventLowercase)
            (''Origin'' := eventHeaders mockEventLowercase ''origin'', ''origin'' := None)\<rparr>)
       [''https://www.other-website.com'']
       = parseAllowedOrigin mockEventLowercase [''https://www.other-website.com'']"
    by blast
  then have r4: "parseAllowedOrigin
       (mockEventLowercase\<lparr>eventHeaders :=
          (eventHeaders mockEventLowercase)
            (''Origin'' := eventHeaders mockEventLowercase ''origin'', ''origin'' := None)\<rparr>)
       [''https://www.other-website.com'']
       = Some ''https://www.other-website.com''"
    using r1 by (rule trans)
  have out: "\<forall>inb. inboundOrigin mockEventGet = Some inb \<longrightarrow>
      inb \<notin> set [''https://www.other-website.com'']"
    by (simp add: i2)
  have nostar: "''*'' \<notin> set [''https://www.other-website.com'']"
    by simp
  from parseAllowedOrigin_resolution [OF n1, of mockEventGet] out nostar
  have "parseAllowedOrigin mockEventGet [''https://www.other-website.com'']
       = Some ([''https://www.other-website.com''] ! 0)"
    by blast
  then have r2: "parseAllowedOrigin mockEventGet [''https://www.other-website.com'']
       = Some ''https://www.other-website.com''"
    by simp
  have out': "\<forall>inb. inboundOrigin mockEventGet = Some inb \<longrightarrow> inb \<notin> set [''*'']"
    by (simp add: i2)
  have star: "''*'' \<in> set [''*'']"
    by simp
  from parseAllowedOrigin_resolution [OF n2, of mockEventGet] out' star
  have r3: "parseAllowedOrigin mockEventGet [''*''] = Some ''*''"
    by blast
  show ?thesis
    using n1 i1 r1 i2 r2 r3 k r4 by (intro conjI)
qed

subsection \<open>First writer wins\<close>

text \<open>
  Claim C2. A header name that the response's header object binds to a value other than
  \<^verbatim>\<open>null\<close> and \<^verbatim>\<open>undefined\<close> before the hook runs is bound to the same value afterwards,
  for every options object and every request.
\<close>

theorem finally_keeps_bound_headers:
  assumes "lookupHeader req h = Some v" and "\<not> eqNull v"
  shows "lookupHeader (snd (ShallotAWSHttpCors_finally config req)) h = Some v"
proof (cases "httpMethod (event req)")
  case None
  then show ?thesis using assms by (simp add: finally_no_method)
next
  case (Some m)
  from assms have "\<not> eqNull (getProp (lookupHeader req) h)" by (simp add: getProp_def)
  then show ?thesis using assms
    by (simp add: lookupHeader_finally [OF Some] merged_def)
qed

text \<open>The test "Predefined headers": \<^verbatim>\<open>X-Test: ""\<close> survives.\<close>

theorem finally_keeps_bound_headers_witness:
  "lookupHeader \<lparr>event = mockEventGet, response = Some handlerWithResHeaders\<rparr> ''X-Test''
     = Some (JString '''')
   \<and> \<not> eqNull (JString '''')
   \<and> lookupHeader
       (snd (ShallotAWSHttpCors_finally None
          \<lparr>event = mockEventGet, response = Some handlerWithResHeaders\<rparr>)) ''X-Test''
     = Some (JString '''')"
proof -
  have b: "lookupHeader \<lparr>event = mockEventGet, response = Some handlerWithResHeaders\<rparr> ''X-Test''
     = Some (JString '''')"
    by (simp add: lookupHeader_def handlerWithResHeaders_def)
  have n: "\<not> eqNull (JString '''')" by simp
  from finally_keeps_bound_headers [OF b n, of None] b n show ?thesis by blast
qed

subsection \<open>No method, no action\<close>

text \<open>
  Claim C3. When the event has no HTTP method the hook leaves the request as it is: no
  response object and no header object is created, and no header is written, for every
  options object.
\<close>

theorem finally_without_method:
  assumes "httpMethod (event req) = None"
  shows "snd (ShallotAWSHttpCors_finally config req) = req"
  using assms by (simp add: finally_no_method)

text \<open>The test "No method", with a handler that produced no response.\<close>

theorem finally_without_method_witness:
  "httpMethod (event \<lparr>event = mockEventNoMethod, response = None\<rparr>) = None
   \<and> snd (ShallotAWSHttpCors_finally None \<lparr>event = mockEventNoMethod, response = None\<rparr>)
       = \<lparr>event = mockEventNoMethod, response = None\<rparr>
   \<and> response (snd (ShallotAWSHttpCors_finally None
         \<lparr>event = mockEventNoMethod, response = None\<rparr>)) = None"
proof -
  have m: "httpMethod (event \<lparr>event = mockEventNoMethod, response = None\<rparr>) = None"
    by (simp add: mockEventNoMethod_def)
  from finally_without_method [OF m, of None] m show ?thesis by simp
qed

subsection \<open>Idempotence\<close>

text \<open>
  Claim C4. Running the hook a second time changes nothing: on the request that the first
  run returned, with the \<^verbatim>\<open>config\<close> that the first run left behind, the second run
  returns the same \<^verbatim>\<open>config\<close> and the same request; the same holds for the request when
  the second run starts from the caller's original options again.
\<close>

theorem finally_idempotent:
  "ShallotAWSHttpCors_finally (fst (ShallotAWSHttpCors_finally config req))
       (snd (ShallotAWSHttpCors_finally config req))
     = ShallotAWSHttpCors_finally config req
   \<and> snd (ShallotAWSHttpCors_finally config (snd (ShallotAWSHttpCors_finally config req)))
     = snd (ShallotAWSHttpCors_finally config req)"
proof (cases "httpMethod (event req)")
  case None
  then show ?thesis by (simp add: finally_no_method spreadDefaults_idem)
next
  case (Some m)
  let ?c = "spreadDefaults config"
  let ?b = "case response req of None \<Rightarrow> emptyResult | Some r \<Rightarrow> r"
  let ?M = "merged ?c (event req) (lookupHeader req)"
  let ?req1 = "req\<lparr>response := Some (?b\<lparr>headers := Some ?M\<rparr>)\<rparr>"
  have first: "ShallotAWSHttpCors_finally config req = (Some ?c, ?req1)"
    by (rule finally_method [OF Some])
  have m1: "httpMethod (event ?req1) = Some m" using Some by simp
  have look: "lookupHeader ?req1 = ?M"
    by (simp add: lookupHeader_def fun_eq_iff)
  have again: "ShallotAWSHttpCors_finally cfg ?req1 =
      (Some (spreadDefaults cfg),
       ?req1\<lparr>response := Some (?b\<lparr>headers := Some ?M\<rparr>
          \<lparr>headers := Some (merged (spreadDefaults cfg) (event req) ?M)\<rparr>)\<rparr>)" for cfg
    using finally_method [OF m1, of cfg] by (simp add: look)
  have "ShallotAWSHttpCors_finally (Some ?c) ?req1 = (Some ?c, ?req1)"
    by (simp add: again spreadDefaults_idem merged_idem)
  moreover have "snd (ShallotAWSHttpCors_finally config ?req1) = ?req1"
    by (simp add: again merged_idem)
  ultimately show ?thesis by (simp add: first)
qed

text \<open>The test "Default usage", wrapped twice.\<close>

theorem finally_idempotent_witness:
  "ShallotAWSHttpCors_finally
       (fst (ShallotAWSHttpCors_finally None \<lparr>event = mockEventGet, response = Some handlerResult\<rparr>))
       (snd (ShallotAWSHttpCors_finally None \<lparr>event = mockEventGet, response = Some handlerResult\<rparr>))
     = ShallotAWSHttpCors_finally None \<lparr>event = mockEventGet, response = Some handlerResult\<rparr>"
  using finally_idempotent [of None "\<lparr>event = mockEventGet, response = Some handlerResult\<rparr>"]
  by (rule conjunct1)

subsection \<open>Empty list of allowed origins\<close>

text \<open>
  Claim C5. With \<^verbatim>\<open>allowedOrigins: []\<close> the hook never writes
  \<^verbatim>\<open>Access-Control-Allow-Origin\<close>: what the header object binds to that name after the
  hook is what it bound before (nothing, if it had no such key or did not exist), for every
  request.
\<close>

theorem empty_allowedOrigins_no_allow_origin:
  assumes "allowedOrigins c = Given []"
  shows "lookupHeader (snd (ShallotAWSHttpCors_finally (Some c) req)) ''Access-Control-Allow-Origin''
       = lookupHeader req ''Access-Control-Allow-Origin''"
proof (cases "httpMethod (event req)")
  case None
  then show ?thesis by (simp add: finally_no_method)
next
  case (Some m)
  have "offered (spreadDefaults (Some c)) (event req) ''Access-Control-Allow-Origin'' = JUndefined"
    using assms by (simp add: offered_def spreadDefaults_def)
  then show ?thesis
    by (simp add: lookupHeader_finally [OF Some] merged_def)
qed

text \<open>The test "No origins".\<close>

theorem empty_allowedOrigins_no_allow_origin_witness:
  "allowedOrigins (noOptions\<lparr>allowedOrigins := Given []\<rparr>) = Given []
   \<and> lookupHeader
       (snd (ShallotAWSHttpCors_finally (Some (noOptions\<lparr>allowedOrigins := Given []\<rparr>))
          \<lparr>event = mockEventGet, response = Some handlerResult\<rparr>))
       ''Access-Control-Allow-Origin'' = None"
proof -
  have a: "allowedOrigins (noOptions\<lparr>allowedOrigins := Given []\<rparr>) = Given []" by simp
  have b: "lookupHeader \<lparr>event = mockEventGet, response = Some handlerResult\<rparr>
      ''Access-Control-Allow-Origin'' = None"
    by (simp add: lookupHeader_def handlerResult_def)
  from empty_allowedOrigins_no_allow_origin
     [OF a, of "\<lparr>event = mockEventGet, response = Some handlerResult\<rparr>"] b
  have "lookupHeader
       (snd (ShallotAWSHttpCors_finally (Some (noOptions\<lparr>allowedOrigins := Given []\<rparr>))
          \<lparr>event = mockEventGet, response = Some handlerResult\<rparr>))
       ''Access-Control-Allow-Origin'' = None"
    by (rule trans)
  with a show ?thesis by (intro conjI)
qed

subsection \<open>Cache-Control on preflight only\<close>

text \<open>
  Claim C6. The hook changes what is bound to \<^verbatim>\<open>Cache-Control\<close> only when the method is
  exactly \<^verbatim>\<open>"OPTIONS"\<close>, \<^verbatim>\<open>cacheControl\<close> carries a string and the header was not bound to
  a non-null value; the header then holds that string. For every other method the binding of
  \<^verbatim>\<open>Cache-Control\<close> is left as it was, whatever \<^verbatim>\<open>cacheControl\<close> is. Conversely, under
  those three conditions the header is written.
\<close>

theorem cache_control_preflight_only:
  "(lookupHeader (snd (ShallotAWSHttpCors_finally config req)) ''Cache-Control''
        \<noteq> lookupHeader req ''Cache-Control''
      \<longrightarrow> httpMethod (event req) = Some ''OPTIONS''
        \<and> eqNull (readHeader req ''Cache-Control'')
        \<and> (\<exists>s. cacheControl (spreadDefaults config) = Given s
              \<and> lookupHeader (snd (ShallotAWSHttpCors_finally config req)) ''Cache-Control''
                  = Some (JString s)))
   \<and> (httpMethod (event req) \<noteq> Some ''OPTIONS''
      \<longrightarrow> lookupHeader (snd (ShallotAWSHttpCors_finally config req)) ''Cache-Control''
            = lookupHeader req ''Cache-Control'')
   \<and> (httpMethod (event req) = Some ''OPTIONS''
        \<and> cacheControl (spreadDefaults config) = Given s
        \<and> eqNull (readHeader req ''Cache-Control'')
      \<longrightarrow> lookupHeader (snd (ShallotAWSHttpCors_finally config req)) ''Cache-Control''
            = Some (JString s))"
proof (cases "httpMethod (event req)")
  case None
  then show ?thesis by (simp add: finally_no_method)
next
  case (Some m)
  have off: "offered (spreadDefaults config) (event req) ''Cache-Control'' =
      (if m = ''OPTIONS'' then optString (cacheControl (spreadDefaults config)) else JUndefined)"
    using Some by (simp add: offered_def)
  show ?thesis
    using Some
    by (cases "cacheControl (spreadDefaults config)")
       (auto simp add: lookupHeader_finally [OF Some] merged_def off optString_def
          getProp_lookupHeader)
qed

text \<open>
  The test "Cache-Control for OPTIONS method", and the same options on a \<^verbatim>\<open>GET\<close>.
\<close>

theorem cache_control_preflight_only_witness:
  "httpMethod (event \<lparr>event = mockEventGet, response = Some handlerResult\<rparr>) \<noteq> Some ''OPTIONS''
   \<and> lookupHeader
       (snd (ShallotAWSHttpCors_finally (Some (noOptions\<lparr>cacheControl := Given ''no-cache''\<rparr>))
          \<lparr>event = mockEventGet, response = Some handlerResult\<rparr>)) ''Cache-Control'' = None
   \<and> httpMethod (event \<lparr>event = mockEventOptions, response = Some handlerResult\<rparr>)
       = Some ''OPTIONS''
   \<and> lookupHeader
       (snd (ShallotAWSHttpCors_finally (Some (noOptions\<lparr>cacheControl := Given ''no-cache''\<rparr>))
          \<lparr>event = mockEventOptions, response = Some handlerResult\<rparr>)) ''Cache-Control''
       = Some (JString ''no-cache'')
   \<and> lookupHeader
       (snd (ShallotAWSHttpCors_finally (Some (noOptions\<lparr>cacheControl := Given ''no-cache''\<rparr>))
          \<lparr>event = mockEventOptions, response = Some handlerResult\<rparr>)) ''Cache-Control''
       \<noteq> lookupHeader \<lparr>event = mockEventOptions, response = Some handlerResult\<rparr>
           ''Cache-Control''"
proof -
  let ?cfg = "Some (noOptions\<lparr>cacheControl := Given ''no-cache''\<rparr>)"
  let ?get = "\<lparr>event = mockEventGet, response = Some handlerResult\<rparr>"
  let ?opt = "\<lparr>event = mockEventOptions, response = Some handlerResult\<rparr>"
  have g: "httpMethod (event ?get) \<noteq> Some ''OPTIONS''"
    by (simp add: mockEventGet_def)
  have o: "httpMethod (event ?opt) = Some ''OPTIONS''"
    by (simp add: mockEventOptions_def)
  have cc: "cacheControl (spreadDefaults ?cfg) = Given ''no-cache''"
    by (simp add: spreadDefaults_def noOptions_def)
  have bg: "lookupHeader ?get ''Cache-Control'' = None"
    by (simp add: lookupHeader_def handlerResult_def)
  have bo: "lookupHeader ?opt ''Cache-Control'' = None"
    by (simp add: lookupHeader_def handlerResult_def)
  have nul: "eqNull (readHeader ?opt ''Cache-Control'')"
    by (simp add: readHeader_def bo)
  from cache_control_preflight_only [of ?cfg ?get] g
  have "lookupHeader (snd (ShallotAWSHttpCors_finally ?cfg ?get)) ''Cache-Control''
      = lookupHeader ?get ''Cache-Control''"
    by blast
  then have r1: "lookupHeader (snd (ShallotAWSHttpCors_finally ?cfg ?get)) ''Cache-Control'' = None"
    using bg by (rule trans)
  from cache_control_preflight_only [of ?cfg ?opt "''no-cache''"] o cc nul
  have r2: "lookupHeader (snd (ShallotAWSHttpCors_finally ?cfg ?opt)) ''Cache-Control''
      = Some (JString ''no-cache'')"
    by blast
  then have r3: "lookupHeader (snd (ShallotAWSHttpCors_finally ?cfg ?opt)) ''Cache-Control''
      \<noteq> lookupHeader ?opt ''Cache-Control''"
    by (simp add: bo)
  show ?thesis using g r1 o r2 r3 by (intro conjI)
qed

subsection \<open>Credentials\<close>

text \<open>
  Claim C7. For a request with a method: when \<^verbatim>\<open>credentials\<close> is exactly \<^verbatim>\<open>true\<close> the
  hook binds \<^verbatim>\<open>Access-Control-Allow-Credentials\<close> to the string \<^verbatim>\<open>"true"\<close> unless the
  header already has a non-null value, which then stays; when \<^verbatim>\<open>credentials\<close> is
  \<^verbatim>\<open>false\<close>, \<^verbatim>\<open>undefined\<close> or missing, the binding of that header is left as it was.
  After defaulting, \<^verbatim>\<open>credentials\<close> is \<^verbatim>\<open>true\<close> exactly when the caller passed \<^verbatim>\<open>true\<close>.
\<close>

theorem credentials_header:
  assumes "httpMethod (event req) = Some m"
  shows "(credentials (spreadDefaults config) = Given True \<longrightarrow>
            lookupHeader (snd (ShallotAWSHttpCors_finally config req))
                ''Access-Control-Allow-Credentials''
              = (if eqNull (readHeader req ''Access-Control-Allow-Credentials'')
                 then Some (JString ''true'')
                 else lookupHeader req ''Access-Control-Allow-Credentials''))
       \<and> (credentials (spreadDefaults config) \<noteq> Given True \<longrightarrow>
            lookupHeader (snd (ShallotAWSHttpCors_finally config req))
                ''Access-Control-Allow-Credentials''
              = lookupHeader req ''Access-Control-Allow-Credentials'')
       \<and> (credentials (spreadDefaults config) = Given True
            \<longleftrightarrow> (\<exists>c. config = Some c \<and> credentials c = Given True))"
proof -
  have off: "offered (spreadDefaults config) (event req) ''Access-Control-Allow-Credentials'' =
      (if credentials (spreadDefaults config) = Given True then JBoolean True else JUndefined)"
    by (cases "credentials (spreadDefaults config)") (simp_all add: offered_def)
  have caller: "credentials (spreadDefaults config) = Given True
            \<longleftrightarrow> (\<exists>c. config = Some c \<and> credentials c = Given True)"
    by (cases config) (auto simp add: spreadDefaults_def split: optfield.splits)
  have "lookupHeader (snd (ShallotAWSHttpCors_finally config req))
        ''Access-Control-Allow-Credentials''
      = (if credentials (spreadDefaults config) = Given True
            \<and> eqNull (readHeader req ''Access-Control-Allow-Credentials'')
         then Some (JString ''true'')
         else lookupHeader req ''Access-Control-Allow-Credentials'')"
    by (simp add: lookupHeader_finally [OF assms] merged_def off getProp_lookupHeader)
  then have "(credentials (spreadDefaults config) = Given True \<longrightarrow>
            lookupHeader (snd (ShallotAWSHttpCors_finally config req))
                ''Access-Control-Allow-Credentials''
              = (if eqNull (readHeader req ''Access-Control-Allow-Credentials'')
                 then Some (JString ''true'')
                 else lookupHeader req ''Access-Control-Allow-Credentials''))
       \<and> (credentials (spreadDefaults config) \<noteq> Given True \<longrightarrow>
            lookupHeader (snd (ShallotAWSHttpCors_finally config req))
                ''Access-Control-Allow-Credentials''
              = lookupHeader req ''Access-Control-Allow-Credentials'')"
    by simp
  with caller show ?thesis by blast
qed

text \<open>The test "Credentials", and the default options on the same request.\<close>

theorem credentials_header_witness:
  "httpMethod (event \<lparr>event = mockEventGet, response = Some handlerResult\<rparr>) = Some ''GET''
   \<and> credentials (spreadDefaults (Some (noOptions\<lparr>credentials := Given True\<rparr>))) = Given True
   \<and> lookupHeader
       (snd (ShallotAWSHttpCors_finally (Some (noOptions\<lparr>credentials := Given True\<rparr>))
          \<lparr>event = mockEventGet, response = Some handlerResult\<rparr>))
       ''Access-Control-Allow-Credentials'' = Some (JString ''true'')
   \<and> credentials (spreadDefaults None) \<noteq> Given True
   \<and> lookupHeader
       (snd (ShallotAWSHttpCors_finally None
          \<lparr>event = mockEventGet, response = Some handlerResult\<rparr>))
       ''Access-Control-Allow-Credentials'' = None"
proof -
  let ?cfg = "Some (noOptions\<lparr>credentials := Given True\<rparr>)"
  let ?get = "\<lparr>event = mockEventGet, response = Some handlerResult\<rparr>"
  have m: "httpMethod (event ?get) = Some ''GET''"
    by (simp add: mockEventGet_def)
  have t: "credentials (spreadDefaults ?cfg) = Given True"
    by (simp add: spreadDefaults_def)
  have f: "credentials (spreadDefaults None) \<noteq> Given True"
    by (simp add: spreadDefaults_def)
  have b: "lookupHeader ?get ''Access-Control-Allow-Credentials'' = None"
    by (simp add: lookupHeader_def handlerResult_def)
  have nul: "eqNull (readHeader ?get ''Access-Control-Allow-Credentials'')"
    by (simp add: readHeader_def b)
  from credentials_header [OF m, of ?cfg] t
  have "lookupHeader (snd (ShallotAWSHttpCors_finally ?cfg ?get))
      ''Access-Control-Allow-Credentials''
      = (if eqNull (readHeader ?get ''Access-Control-Allow-Credentials'')
         then Some (JString ''true'')
         else lookupHeader ?get ''Access-Control-Allow-Credentials'')"
    by blast
  with nul have r1: "lookupHeader (snd (ShallotAWSHttpCors_finally ?cfg ?get))
      ''Access-Control-Allow-Credentials'' = Some (JString ''true'')"
    by simp
  from credentials_header [OF m, of None] f
  have "lookupHeader (snd (ShallotAWSHttpCors_finally None ?get))
      ''Access-Control-Allow-Credentials''
      = lookupHeader ?get ''Access-Control-Allow-Credentials''"
    by blast
  then have r2: "lookupHeader (snd (ShallotAWSHttpCors_finally None ?get))
      ''Access-Control-Allow-Credentials'' = None"
    using b by (rule trans)
  show ?thesis using m t r1 f r2 by (intro conjI)
qed

subsection \<open>Defaults\<close>

text \<open>
  Claim C8. The hook itself fills in the defaults, key by key: in the options that it
  leaves behind, \<^verbatim>\<open>allowedOrigins\<close> is \<^verbatim>\<open>['*']\<close> when the caller's object has no such key
  and the caller's entry otherwise, \<^verbatim>\<open>credentials\<close> is \<^verbatim>\<open>false\<close> when the caller's object
  has no such key and the caller's entry otherwise, and the other three keys are the
  caller's; a middleware built without options gets both defaults. The defaults take
  effect whatever the other keys are: with a method present and \<^verbatim>\<open>allowedOrigins\<close> left
  out, \<^verbatim>\<open>Access-Control-Allow-Origin\<close> is bound to \<^verbatim>\<open>"*"\<close> unless it had a non-null value,
  and with \<^verbatim>\<open>credentials\<close> left out \<^verbatim>\<open>Access-Control-Allow-Credentials\<close> is not written.
  Hence, for a request whose method is not \<^verbatim>\<open>"OPTIONS"\<close> and whose response has no header
  bound, the hook run without options (or with an options object in which at most
  \<^verbatim>\<open>cacheControl\<close> is present) leaves a header object with exactly one entry,
  \<^verbatim>\<open>Access-Control-Allow-Origin: "*"\<close>.
\<close>

theorem defaults_and_default_get:
  "(allowedOrigins c = Omitted \<and> credentials c = Omitted \<longrightarrow>
      fst (ShallotAWSHttpCors_finally (Some c) req)
        = Some (c\<lparr>allowedOrigins := Given [''*''], credentials := Given False\<rparr>))
   \<and> fst (ShallotAWSHttpCors_finally None req)
        = Some \<lparr>allowHeaders = Omitted, allowedOrigins = Given [''*''],
                credentials = Given False, maxAge = Omitted, cacheControl = Omitted\<rparr>
   \<and> ((config = None \<or>
        config = Some \<lparr>allowHeaders = Omitted, allowedOrigins = Omitted, credentials = Omitted,
                       maxAge = Omitted, cacheControl = cc\<rparr>)
       \<and> httpMethod (event req) = Some m \<and> m \<noteq> ''OPTIONS''
       \<and> (\<forall>h. lookupHeader req h = None) \<longrightarrow>
       (\<exists>r. response (snd (ShallotAWSHttpCors_finally config req)) = Some r
          \<and> headers r = Some [''Access-Control-Allow-Origin'' \<mapsto> JString ''*'']))
   \<and> (\<exists>c'. fst (ShallotAWSHttpCors_finally (Some c) req) = Some c'
         \<and> (allowedOrigins c = Omitted \<longrightarrow> allowedOrigins c' = Given [''*''])
         \<and> (allowedOrigins c \<noteq> Omitted \<longrightarrow> allowedOrigins c' = allowedOrigins c)
         \<and> (credentials c = Omitted \<longrightarrow> credentials c' = Given False)
         \<and> (credentials c \<noteq> Omitted \<longrightarrow> credentials c' = credentials c)
         \<and> allowHeaders c' = allowHeaders c \<and> maxAge c' = maxAge c
         \<and> cacheControl c' = cacheControl c)
   \<and> (httpMethod (event req) = Some m \<and> allowedOrigins c = Omitted \<longrightarrow>
         lookupHeader (snd (ShallotAWSHttpCors_finally (Some c) req))
             ''Access-Control-Allow-Origin''
           = (if eqNull (readHeader req ''Access-Control-Allow-Origin'')
              then Some (JString ''*'')
              else lookupHeader req ''Access-Control-Allow-Origin''))
   \<and> (httpMethod (event req) = Some m \<and> credentials c = Omitted \<longrightarrow>
         lookupHeader (snd (ShallotAWSHttpCors_finally (Some c) req))
             ''Access-Control-Allow-Credentials''
           = lookupHeader req ''Access-Control-Allow-Credentials'')"
proof -
  have first: "fst (ShallotAWSHttpCors_finally cfg req) = Some (spreadDefaults cfg)" for cfg
    by (cases "httpMethod (event req)") (auto simp add: finally_no_method finally_method)
  have a: "allowedOrigins c = Omitted \<and> credentials c = Omitted \<longrightarrow>
      fst (ShallotAWSHttpCors_finally (Some c) req)
        = Some (c\<lparr>allowedOrigins := Given [''*''], credentials := Given False\<rparr>)"
    by (simp add: first spreadDefaults_def)
  have b: "fst (ShallotAWSHttpCors_finally None req)
        = Some \<lparr>allowHeaders = Omitted, allowedOrigins = Given [''*''],
                credentials = Given False, maxAge = Omitted, cacheControl = Omitted\<rparr>"
    by (simp add: first spreadDefaults_def)
  have star: "parseAllowedOrigin (event req) [''*''] = Some ''*''"
    by (auto simp add: parseAllowedOrigin_def split: option.splits)
  have c: "\<exists>r. response (snd (ShallotAWSHttpCors_finally config req)) = Some r
          \<and> headers r = Some [''Access-Control-Allow-Origin'' \<mapsto> JString ''*'']"
    if cfg: "config = None \<or>
        config = Some \<lparr>allowHeaders = Omitted, allowedOrigins = Omitted, credentials = Omitted,
                       maxAge = Omitted, cacheControl = cc\<rparr>"
      and m: "httpMethod (event req) = Some m" "m \<noteq> ''OPTIONS''"
      and emp: "\<forall>h. lookupHeader req h = None"
  proof -
    from cfg obtain cc' where sd: "spreadDefaults config =
        \<lparr>allowHeaders = Omitted, allowedOrigins = Given [''*''],
         credentials = Given False, maxAge = Omitted, cacheControl = cc'\<rparr>"
      by (auto simp add: spreadDefaults_def)
    have "merged (spreadDefaults config) (event req) (lookupHeader req) k =
        [''Access-Control-Allow-Origin'' \<mapsto> JString ''*''] k" for k
      using m emp
      by (simp add: merged_cases writeIfNull_at getProp_def sd offered_def optString_def star)
    then have "merged (spreadDefaults config) (event req) (lookupHeader req) =
        [''Access-Control-Allow-Origin'' \<mapsto> JString ''*'']"
      by (rule ext)
    then show ?thesis
      by (simp add: finally_method [OF m(1)])
  qed
  have d: "\<exists>c'. fst (ShallotAWSHttpCors_finally (Some c) req) = Some c'
         \<and> (allowedOrigins c = Omitted \<longrightarrow> allowedOrigins c' = Given [''*''])
         \<and> (allowedOrigins c \<noteq> Omitted \<longrightarrow> allowedOrigins c' = allowedOrigins c)
         \<and> (credentials c = Omitted \<longrightarrow> credentials c' = Given False)
         \<and> (credentials c \<noteq> Omitted \<longrightarrow> credentials c' = credentials c)
         \<and> allowHeaders c' = allowHeaders c \<and> maxAge c' = maxAge c
         \<and> cacheControl c' = cacheControl c"
    by (simp add: first spreadDefaults_def split: optfield.splits)
  have e: "lookupHeader (snd (ShallotAWSHttpCors_finally (Some c) req))
             ''Access-Control-Allow-Origin''
           = (if eqNull (readHeader req ''Access-Control-Allow-Origin'')
              then Some (JString ''*'')
              else lookupHeader req ''Access-Control-Allow-Origin'')"
    if m: "httpMethod (event req) = Some m" and o: "allowedOrigins c = Omitted"
  proof -
    have "offered (spreadDefaults (Some c)) (event req) ''Access-Control-Allow-Origin''
        = JString ''*''"
      using o by (simp add: offered_def spreadDefaults_def star)
    then show ?thesis
      by (simp add: lookupHeader_finally [OF m] merged_def getProp_lookupHeader)
  qed
  have f: "lookupHeader (snd (ShallotAWSHttpCors_finally (Some c) req))
             ''Access-Control-Allow-Credentials''
           = lookupHeader req ''Access-Control-Allow-Credentials''"
    if m: "httpMethod (event req) = Some m" and o: "credentials c = Omitted"
  proof -
    have "offered (spreadDefaults (Some c)) (event req) ''Access-Control-Allow-Credentials''
        = JUndefined"
      using o by (simp add: offered_def spreadDefaults_def)
    then show ?thesis
      by (simp add: lookupHeader_finally [OF m] merged_def)
  qed
  from a b c d e f show ?thesis by blast
qed

text \<open>
  The tests "Default usage" and "Credentials": in the second the caller gives
  \<^verbatim>\<open>credentials: true\<close> and leaves \<^verbatim>\<open>allowedOrigins\<close> out.
\<close>

theorem defaults_and_default_get_witness:
  "allowedOrigins noOptions = Omitted \<and> credentials noOptions = Omitted
   \<and> fst (ShallotAWSHttpCors_finally (Some noOptions)
        \<lparr>event = mockEventGet, response = Some handlerResult\<rparr>)
       = Some (noOptions\<lparr>allowedOrigins := Given [''*''], credentials := Given False\<rparr>)
   \<and> httpMethod (event \<lparr>event = mockEventGet, response = Some handlerResult\<rparr>) = Some ''GET''
   \<and> ''GET'' \<noteq> ''OPTIONS''
   \<and> (\<forall>h. lookupHeader \<lparr>event = mockEventGet, response = Some handlerResult\<rparr> h = None)
   \<and> (\<exists>r. response (snd (ShallotAWSHttpCors_finally None
               \<lparr>event = mockEventGet, response = Some handlerResult\<rparr>)) = Some r
          \<and> headers r = Some [''Access-Control-Allow-Origin'' \<mapsto> JString ''*''])
   \<and> allowedOrigins (noOptions\<lparr>credentials := Given True\<rparr>) = Omitted
   \<and> credentials (noOptions\<lparr>credentials := Given True\<rparr>) \<noteq> Omitted
   \<and> (\<exists>c'. fst (ShallotAWSHttpCors_finally (Some (noOptions\<lparr>credentials := Given True\<rparr>))
               \<lparr>event = mockEventGet, response = Some handlerResult\<rparr>) = Some c'
         \<and> allowedOrigins c' = Given [''*''] \<and> credentials c' = Given True)
   \<and> lookupHeader
       (snd (ShallotAWSHttpCors_finally (Some (noOptions\<lparr>credentials := Given True\<rparr>))
          \<lparr>event = mockEventGet, response = Some handlerResult\<rparr>))
       ''Access-Control-Allow-Origin'' = Some (JString ''*'')"
proof -
  let ?get = "\<lparr>event = mockEventGet, response = Some handlerResult\<rparr>"
  let ?cred = "noOptions\<lparr>credentials := Given True\<rparr>"
  have o: "allowedOrigins noOptions = Omitted" "credentials noOptions = Omitted"
    by (simp_all add: noOptions_def)
  have m: "httpMethod (event ?get) = Some ''GET''"
    by (simp add: mockEventGet_def)
  have ne: "''GET'' \<noteq> ''OPTIONS''" by simp
  have emp: "\<forall>h. lookupHeader ?get h = None"
    by (simp add: lookupHeader_def handlerResult_def)
  note t = defaults_and_default_get [of noOptions ?get None Omitted "''GET''"]
  from t o have r1: "fst (ShallotAWSHttpCors_finally (Some noOptions) ?get)
       = Some (noOptions\<lparr>allowedOrigins := Given [''*''], credentials := Given False\<rparr>)"
    by blast
  from t m ne emp
  have r2: "\<exists>r. response (snd (ShallotAWSHttpCors_finally None ?get)) = Some r
          \<and> headers r = Some [''Access-Control-Allow-Origin'' \<mapsto> JString ''*'']"
    by blast
  have co: "allowedOrigins ?cred = Omitted"
    by (simp add: noOptions_def)
  have cc: "credentials ?cred \<noteq> Omitted" "credentials ?cred = Given True"
    by simp_all
  have nul: "eqNull (readHeader ?get ''Access-Control-Allow-Origin'')"
    by (simp add: readHeader_def emp)
  note u = defaults_and_default_get [of ?cred ?get None Omitted "''GET''"]
  from u obtain c' where
    c': "fst (ShallotAWSHttpCors_finally (Some ?cred) ?get) = Some c'"
      "allowedOrigins ?cred = Omitted \<longrightarrow> allowedOrigins c' = Given [''*'']"
      "credentials ?cred \<noteq> Omitted \<longrightarrow> credentials c' = credentials ?cred"
    by blast
  from c' co cc have r3: "\<exists>c'. fst (ShallotAWSHttpCors_finally (Some ?cred) ?get) = Some c'
         \<and> allowedOrigins c' = Given [''*''] \<and> credentials c' = Given True"
    by simp
  from u m co
  have "lookupHeader (snd (ShallotAWSHttpCors_finally (Some ?cred) ?get))
       ''Access-Control-Allow-Origin''
       = (if eqNull (readHeader ?get ''Access-Control-Allow-Origin'')
          then Some (JString ''*'')
          else lookupHeader ?get ''Access-Control-Allow-Origin'')"
    by blast
  with nul have r4: "lookupHeader (snd (ShallotAWSHttpCors_finally (Some ?cred) ?get))
       ''Access-Control-Allow-Origin'' = Some (JString ''*'')"
    by simp
  show ?thesis using o r1 m ne emp r2 co cc(1) r3 r4 by (intro conjI)
qed

subsection \<open>Errors and the index read\<close>




subsection \<open>Frame\<close>

text \<open>
  Claim C10. For a request with a method the hook can write only the five names
  \<^verbatim>\<open>Access-Control-Allow-Headers\<close>, \<^verbatim>\<open>Access-Control-Allow-Credentials\<close>,
  \<^verbatim>\<open>Access-Control-Max-Age\<close>, \<^verbatim>\<open>Access-Control-Allow-Origin\<close> and \<^verbatim>\<open>Cache-Control\<close>:
  the request it returns is the given one with the header object of its response (the
  empty object \<^verbatim>\<open>{}\<close> when there was no response) replaced, so the event and the other
  fields of the response, such as \<^verbatim>\<open>statusCode\<close> and \<^verbatim>\<open>body\<close>, are unchanged, and the new
  header object agrees with the old bindings on every other name.
\<close>

theorem only_cors_headers_written:
  assumes "httpMethod (event req) = Some m"
  shows "\<exists>hs'. snd (ShallotAWSHttpCors_finally config req) =
           req\<lparr>response := Some ((case response req of None \<Rightarrow> emptyResult | Some r \<Rightarrow> r)
                  \<lparr>headers := Some hs'\<rparr>)\<rparr>
         \<and> (\<forall>h. h \<notin> corsHeaderNames \<longrightarrow> hs' h = lookupHeader req h)"
proof -
  have "merged (spreadDefaults config) (event req) (lookupHeader req) h = lookupHeader req h"
    if "h \<notin> corsHeaderNames" for h
    using offered_outside [OF that] by (simp add: merged_def)
  then have "\<forall>h. h \<notin> corsHeaderNames \<longrightarrow>
      merged (spreadDefaults config) (event req) (lookupHeader req) h = lookupHeader req h"
    by blast
  moreover have "snd (ShallotAWSHttpCors_finally config req) =
      req\<lparr>response := Some ((case response req of None \<Rightarrow> emptyResult | Some r \<Rightarrow> r)
        \<lparr>headers := Some (merged (spreadDefaults config) (event req) (lookupHeader req))\<rparr>)\<rparr>"
    by (simp add: finally_method [OF assms])
  ultimately show ?thesis by blast
qed

text \<open>
  The test "Predefined headers": status code, body and \<^verbatim>\<open>X-Test\<close> are those of the
  handler's result.
\<close>

theorem only_cors_headers_written_witness:
  "httpMethod (event \<lparr>event = mockEventGet, response = Some handlerWithResHeaders\<rparr>) = Some ''GET''
   \<and> ''X-Test'' \<notin> corsHeaderNames
   \<and> (\<exists>r. response (snd (ShallotAWSHttpCors_finally None
              \<lparr>event = mockEventGet, response = Some handlerWithResHeaders\<rparr>)) = Some r
        \<and> statusCode r = Some ''200'' \<and> body r = Some ''''
        \<and> (\<exists>hs'. headers r = Some hs' \<and> hs' ''X-Test'' = Some (JString '''')))
   \<and> event (snd (ShallotAWSHttpCors_finally None
              \<lparr>event = mockEventGet, response = Some handlerWithResHeaders\<rparr>)) = mockEventGet"
proof -
  let ?req = "\<lparr>event = mockEventGet, response = Some handlerWithResHeaders\<rparr>"
  have m: "httpMethod (event ?req) = Some ''GET''"
    by (simp add: mockEventGet_def)
  have x: "''X-Test'' \<notin> corsHeaderNames"
    by (simp add: corsHeaderNames_def)
  have b: "lookupHeader ?req ''X-Test'' = Some (JString '''')"
    by (simp add: lookupHeader_def handlerWithResHeaders_def)
  from only_cors_headers_written [OF m, of None] obtain hs' where
    eq: "snd (ShallotAWSHttpCors_finally None ?req) =
           ?req\<lparr>response := Some ((case response ?req of None \<Rightarrow> emptyResult | Some r \<Rightarrow> r)
                  \<lparr>headers := Some hs'\<rparr>)\<rparr>"
    and fr: "\<forall>h. h \<notin> corsHeaderNames \<longrightarrow> hs' h = lookupHeader ?req h"
    by blast
  from fr x b have k: "hs' ''X-Test'' = Some (JString '''')" by simp
  have r1: "\<exists>r. response (snd (ShallotAWSHttpCors_finally None ?req)) = Some r
        \<and> statusCode r = Some ''200'' \<and> body r = Some ''''
        \<and> (\<exists>hs'. headers r = Some hs' \<and> hs' ''X-Test'' = Some (JString ''''))"
    unfolding eq using k by (simp add: handlerWithResHeaders_def)
  have r2: "event (snd (ShallotAWSHttpCors_finally None ?req)) = mockEventGet"
    unfolding eq by simp
  show ?thesis using m x r1 r2 by (intro conjI)
qed

end
